theory Spec2Isabelle
  imports Complex_Main "HOL-Library.Stream" "HOL-Library.Multiset" "HOL-Library.Sublist"
begin

section \<open>The FSM rescue agent of lab3\_fsm\_rescue\_agent.py\<close>

subsection \<open>Enumerations and state names\<close>

text \<open>
  The two \<open>Enum\<close> classes of the source. Both have a member called \<open>NONE\<close>; the
  constructors carry a prefix to keep them apart.
\<close>

datatype DisasterType = D_NONE | FLOOD | EARTHQUAKE | FIRE | LANDSLIDE

datatype SeverityLevel = S_NONE | LOW | MODERATE | HIGH | CRITICAL

text \<open>\<open>DisasterType.x.value\<close>: the string each member is declared with.\<close>

fun disaster_value :: "DisasterType \<Rightarrow> string" where
  "disaster_value D_NONE = ''None''"
| "disaster_value FLOOD = ''Flood''"
| "disaster_value EARTHQUAKE = ''Earthquake''"
| "disaster_value FIRE = ''Fire''"
| "disaster_value LANDSLIDE = ''Landslide''"

text \<open>\<open>SeverityLevel.x.value\<close> and \<open>SeverityLevel.x.name\<close>.\<close>

fun severity_value :: "SeverityLevel \<Rightarrow> int" where
  "severity_value S_NONE = 0"
| "severity_value LOW = 1"
| "severity_value MODERATE = 2"
| "severity_value HIGH = 3"
| "severity_value CRITICAL = 4"

fun severity_name :: "SeverityLevel \<Rightarrow> string" where
  "severity_name S_NONE = ''NONE''"
| "severity_name LOW = ''LOW''"
| "severity_name MODERATE = ''MODERATE''"
| "severity_name HIGH = ''HIGH''"
| "severity_name CRITICAL = ''CRITICAL''"

text \<open>The agent's states are plain strings in the source, and so they are here.\<close>

definition STATE_IDLE :: string where "STATE_IDLE = ''IDLE''"
definition STATE_ALERT :: string where "STATE_ALERT = ''ALERT_RECEIVED''"
definition STATE_ASSESSING :: string where "STATE_ASSESSING = ''ASSESSING''"
definition STATE_RESPONDING :: string where "STATE_RESPONDING = ''RESPONDING''"
definition STATE_COMPLETING :: string where "STATE_COMPLETING = ''COMPLETING''"

text \<open>
  A dictionary literal with distinct keys is an association list; \<open>d.get(k, dflt)\<close> is
  a lookup with a default.
\<close>

definition dict_get :: "('k \<times> 'v) list \<Rightarrow> 'k \<Rightarrow> 'v \<Rightarrow> 'v" where
  "dict_get d k dflt = (case map_of d k of None \<Rightarrow> dflt | Some v \<Rightarrow> v)"

definition VALID_TRANSITIONS :: "(string \<times> string list) list" where
  "VALID_TRANSITIONS =
    [(STATE_IDLE, [STATE_ALERT]),
     (STATE_ALERT, [STATE_ASSESSING, STATE_IDLE]),
     (STATE_ASSESSING, [STATE_RESPONDING, STATE_IDLE]),
     (STATE_RESPONDING, [STATE_COMPLETING]),
     (STATE_COMPLETING, [STATE_IDLE])]"

subsection \<open>Events, goals and the agent\<close>

text \<open>
  An event is the dictionary that \<open>DisasterEnvironment.generate_event\<close> builds: always
  the same eight keys. The three sensor readings are floats that the agent only prints.
\<close>

record DisasterEvent =
  zone :: string
  zone_name :: string
  disaster_type :: DisasterType
  severity :: SeverityLevel
  timestamp :: string
  temperature :: real
  water_level :: real
  seismic :: real

record RescueGoal =
  goal_type :: string
  priority :: int
  target_zone :: string
  disaster_event :: DisasterEvent
  status :: string
  created_at :: string

text \<open>
  A log message is an f-string: literal text and interpolated strings are joined into
  \<open>Text\<close> fragments, an interpolated float stays a \<open>Number\<close> (how Python prints a float
  is not modelled). A log line \<open>[timestamp] [agent_id] [current_state] message\<close> is
  kept as its four parts.
\<close>

datatype fragment = Text string | Number real

record log_entry =
  log_time :: string
  log_agent :: string
  log_state :: string
  log_message :: "fragment list"

text \<open>
  The fields of class \<open>RescueAgent\<close>, and with them the wall clock the agent reads:
  \<open>clock\<close> is the stream of the results that the coming calls of
  \<open>datetime.now().strftime("%H:%M:%S")\<close> return, one element per call. It is the only
  field that is not an attribute of the Python object. \<open>time.sleep\<close> changes nothing
  else than the time, and any clock is allowed, so it has no counterpart. \<open>print\<close> writes
  the very entry that is appended to \<open>execution_log\<close>.
\<close>

record RescueAgent =
  agent_id :: string
  current_state :: string
  goals :: "RescueGoal list"
  active_goal :: "RescueGoal option"
  state_history :: "(string \<times> string \<times> string) list"
  completed_missions :: int
  execution_log :: "log_entry list"
  clock :: "string stream"

text \<open>\<open>RescueAgent.__init__\<close>\<close>

definition init :: "string \<Rightarrow> string stream \<Rightarrow> RescueAgent" where
  "init aid clk =
    \<lparr>agent_id = aid,
     current_state = STATE_IDLE,
     goals = [],
     active_goal = None,
     state_history = [(STATE_IDLE, shd clk, ''Agent initialized'')],
     completed_missions = 0,
     execution_log = [],
     clock = stl clk\<rparr>"

text \<open>\<open>RescueAgent.log\<close>\<close>

definition log :: "fragment list \<Rightarrow> RescueAgent \<Rightarrow> RescueAgent" where
  "log message a =
    a\<lparr>execution_log := execution_log a @
         [\<lparr>log_time = shd (clock a), log_agent = agent_id a,
           log_state = current_state a, log_message = message\<rparr>],
      clock := stl (clock a)\<rparr>"

text \<open>\<open>RescueAgent.transition_to\<close>: the returned flag and the agent afterwards.\<close>

definition transition_to :: "string \<Rightarrow> string \<Rightarrow> RescueAgent \<Rightarrow> bool \<times> RescueAgent" where
  "transition_to new_state reason a =
    (if new_state \<notin> set (dict_get VALID_TRANSITIONS (current_state a) []) then
       (False, log [Text (''INVALID TRANSITION: '' @ current_state a @ '' -> '' @ new_state)] a)
     else
       let old_state = current_state a;
           a1 = a\<lparr>current_state := new_state\<rparr>;
           timestamp = shd (clock a1);
           a2 = a1\<lparr>clock := stl (clock a1)\<rparr>;
           a3 = a2\<lparr>state_history := state_history a2 @ [(new_state, timestamp, reason)]\<rparr>
       in (True,
           log [Text (''Transition: '' @ old_state @ '' -> '' @ new_state @ '' | '' @ reason)] a3))"

text \<open>\<open>RescueAgent._determine_goal\<close>\<close>

definition goal_map :: "(DisasterType \<times> string) list" where
  "goal_map =
    [(FLOOD, ''EVACUATE_AND_RESCUE''),
     (EARTHQUAKE, ''SEARCH_AND_RESCUE''),
     (FIRE, ''FIRE_SUPPRESSION_AND_RESCUE''),
     (LANDSLIDE, ''DEBRIS_CLEARANCE_AND_RESCUE'')]"

definition determine_goal :: "DisasterType \<Rightarrow> string" where
  "determine_goal disaster = dict_get goal_map disaster ''GENERAL_RESCUE''"

text \<open>
  \<open>RescueAgent.receive_alert\<close>. The clock is read by \<open>RescueGoal.__init__\<close> (for
  \<open>created_at\<close>), then by \<open>log\<close>, then inside \<open>transition_to\<close>.
\<close>

definition receive_alert :: "DisasterEvent option \<Rightarrow> RescueAgent \<Rightarrow> RescueAgent" where
  "receive_alert event a =
    (case event of
       None \<Rightarrow> a
     | Some ev \<Rightarrow>
         let sev = severity ev;
             disaster = disaster_type ev;
             z = zone ev;
             gtype = determine_goal disaster;
             prio = severity_value sev;
             goal = \<lparr>goal_type = gtype, priority = prio, target_zone = z,
                     disaster_event = ev, status = ''PENDING'', created_at = shd (clock a)\<rparr>;
             a1 = a\<lparr>clock := stl (clock a)\<rparr>;
             a2 = a1\<lparr>goals := goals a1 @ [goal]\<rparr>;
             a3 = log [Text (''New goal created: '' @ gtype @ '' in '' @ z @
                     '' (Severity: '' @ severity_name sev @ '')'')] a2
         in if current_state a3 = STATE_IDLE
            then snd (transition_to STATE_ALERT
                   (''Disaster alert: '' @ disaster_value disaster @ '' in '' @ z) a3)
            else a3)"

text \<open>
  \<open>list.sort(key=..., reverse=True)\<close>: CPython reverses the list, sorts it stably in
  ascending order of the key, and reverses the result, which is how equal keys keep their
  order. \<open>sort_key\<close> is a stable sort, and the result of a stable sort is unique.
\<close>

definition sort_reverse :: "('a \<Rightarrow> int) \<Rightarrow> 'a list \<Rightarrow> 'a list" where
  "sort_reverse key xs = rev (sort_key key (rev xs))"

text \<open>
  \<open>RescueAgent.assess_situation\<close>. \<open>pop(0)\<close> splits the sorted list into its head and
  tail; the list was tested non-empty and sorting keeps its length, so it cannot raise.
\<close>

definition assess_situation :: "RescueAgent \<Rightarrow> RescueAgent" where
  "assess_situation a =
    (if goals a = [] then snd (transition_to STATE_IDLE ''No pending goals'' a)
     else
       let a1 = a\<lparr>goals := sort_reverse priority (goals a)\<rparr>;
           a2 = a1\<lparr>active_goal := Some (hd (goals a1)), goals := tl (goals a1)\<rparr>;
           g = (hd (goals a1))\<lparr>status := ''ACTIVE''\<rparr>;
           a3 = a2\<lparr>active_goal := Some g\<rparr>;
           event = disaster_event g;
           a4 = log [Text (''Assessing: '' @ goal_type g @ '' | '' @
                       ''Zone: '' @ zone event @ '' ('' @ zone_name event @ '') | '' @
                       ''Severity: '' @ severity_name (severity event) @ '' | '' @
                       ''Temp: ''), Number (temperature event),
                     Text (''C | Water: ''), Number (water_level event),
                     Text (''m | Seismic: ''), Number (seismic event)] a3
       in snd (transition_to STATE_ASSESSING (''Assessing '' @ goal_type g) a4))"

text \<open>\<open>RescueAgent._get_response_actions\<close>. The dictionary is built anew at each call,
  so appending to one of its lists is not seen by a later call.\<close>

definition base_actions :: "(DisasterType \<times> string list) list" where
  "base_actions =
    [(FLOOD,
       [''Deploying water rescue boats'',
        ''Activating flood barriers'',
        ''Evacuating residents to higher ground'']),
     (EARTHQUAKE,
       [''Deploying seismic rescue units'',
        ''Scanning collapsed structures'',
        ''Setting up triage stations'']),
     (FIRE,
       [''Dispatching fire suppression units'',
        ''Establishing firebreaks'',
        ''Evacuating affected buildings'']),
     (LANDSLIDE,
       [''Deploying heavy debris removal equipment'',
        ''Scanning for buried survivors'',
        ''Securing unstable terrain''])]"

definition get_response_actions :: "DisasterType \<Rightarrow> SeverityLevel \<Rightarrow> string list" where
  "get_response_actions disaster sev =
    (let actions0 = dict_get base_actions disaster [''Initiating general rescue protocol''];
         actions1 = (if severity_value sev \<ge> severity_value HIGH
                     then (actions0 @ [''Requesting additional backup units''])
                            @ [''Alerting medical emergency teams'']
                     else actions0);
         actions2 = (if sev = CRITICAL
                     then actions1 @ [''Declaring zone-wide emergency evacuation'']
                     else actions1)
     in actions2)"

text \<open>
  \<open>RescueAgent.execute_response\<close>. \<open>transition_to\<close> does not touch the active goal, so
  the goal read after it is the goal read before it.
\<close>

definition execute_response :: "RescueAgent \<Rightarrow> RescueAgent" where
  "execute_response a =
    (case active_goal a of
       None \<Rightarrow> a
     | Some g \<Rightarrow>
         let a1 = snd (transition_to STATE_RESPONDING (''Executing '' @ goal_type g) a);
             event = disaster_event g;
             disaster = disaster_type event;
             sev = severity event;
             actions = get_response_actions disaster sev
         in fold (\<lambda>action. log [Text (''  ACTION: '' @ action)]) actions a1)"

text \<open>\<open>RescueAgent.complete_mission\<close>. A goal object is always truthy.\<close>

definition complete_mission :: "RescueAgent \<Rightarrow> RescueAgent" where
  "complete_mission a =
    (case active_goal a of
       None \<Rightarrow> a
     | Some g \<Rightarrow>
         let a1 = a\<lparr>active_goal := Some (g\<lparr>status := ''COMPLETED''\<rparr>)\<rparr>;
             a2 = a1\<lparr>completed_missions := completed_missions a1 + 1\<rparr>;
             a3 = log [Text (''Mission completed: '' @ goal_type g @ '' in '' @ target_zone g)] a2;
             a4 = snd (transition_to STATE_COMPLETING ''Mission wrap-up'' a3);
             a5 = a4\<lparr>active_goal := None\<rparr>
         in snd (transition_to STATE_IDLE ''Ready for next assignment'' a5))"

text \<open>\<open>RescueAgent.run_fsm_cycle\<close>\<close>

definition run_fsm_cycle :: "RescueAgent \<Rightarrow> RescueAgent" where
  "run_fsm_cycle a =
    (if current_state a = STATE_IDLE then a
     else if current_state a = STATE_ALERT then assess_situation a
     else if current_state a = STATE_ASSESSING then execute_response a
     else if current_state a = STATE_RESPONDING then complete_mission a
     else a)"

subsection \<open>The driver\<close>

text \<open>
  The inner loop of \<open>run_simulation\<close>:
  \<open>while rescue.current_state != STATE_IDLE: rescue.run_fsm_cycle()\<close>.
  Not returning is the value \<open>None\<close>.
\<close>

partial_function (option) step_until_idle :: "RescueAgent \<Rightarrow> RescueAgent option" where
  "step_until_idle a =
    (if current_state a \<noteq> STATE_IDLE then step_until_idle (run_fsm_cycle a) else Some a)"

text \<open>
  One pass of the outer loop, with the event that \<open>sensor.scan()\<close> returned (drawn at
  random in the source) as an argument, and the outer loop over the events of a run.
\<close>

definition simulation_cycle :: "DisasterEvent option \<Rightarrow> RescueAgent \<Rightarrow> RescueAgent option" where
  "simulation_cycle event a = step_until_idle (receive_alert event a)"

fun run_cycles :: "DisasterEvent option list \<Rightarrow> RescueAgent \<Rightarrow> RescueAgent option" where
  "run_cycles [] a = Some a"
| "run_cycles (event # events) a =
     (case simulation_cycle event a of
        None \<Rightarrow> None
      | Some a' \<Rightarrow> run_cycles events a')"

subsection \<open>The transition table, as the specification lists it\<close>

text \<open>
  The allowed targets of each state, written out from section 4.2 of the specification:
  Idle to AlertReceived; AlertReceived to Assessing or Idle; Assessing to Responding or
  Idle; Responding to Completing; Completing to Idle. A string that is no state has no
  target.
\<close>

definition allowed_targets :: "string \<Rightarrow> string set" where
  "allowed_targets s =
    (if s = STATE_IDLE then {STATE_ALERT}
     else if s = STATE_ALERT then {STATE_ASSESSING, STATE_IDLE}
     else if s = STATE_ASSESSING then {STATE_RESPONDING, STATE_IDLE}
     else if s = STATE_RESPONDING then {STATE_COMPLETING}
     else if s = STATE_COMPLETING then {STATE_IDLE}
     else {})"

subsection \<open>The goal kinds, as the specification lists them\<close>

text \<open>
  Section 4.2 of the specification: Flood gives EVACUATE\_AND\_RESCUE, Earthquake
  SEARCH\_AND\_RESCUE, Fire FIRE\_SUPPRESSION\_AND\_RESCUE, Landslide
  DEBRIS\_CLEARANCE\_AND\_RESCUE, anything else GENERAL\_RESCUE.
\<close>

fun goal_kind_of :: "DisasterType \<Rightarrow> string" where
  "goal_kind_of FLOOD = ''EVACUATE_AND_RESCUE''"
| "goal_kind_of EARTHQUAKE = ''SEARCH_AND_RESCUE''"
| "goal_kind_of FIRE = ''FIRE_SUPPRESSION_AND_RESCUE''"
| "goal_kind_of LANDSLIDE = ''DEBRIS_CLEARANCE_AND_RESCUE''"
| "goal_kind_of _ = ''GENERAL_RESCUE''"

subsection \<open>Sequences of operations\<close>

text \<open>
  The operations a caller has on an agent, and the agent after a sequence of them. The
  agents that can be reached are those of the form \<open>after ops (init aid clk)\<close>.
\<close>

datatype operation =
  ReceiveAlert "DisasterEvent option"
| Assess
| ExecuteResponse
| CompleteMission
| RunFsmCycle

fun apply_op :: "operation \<Rightarrow> RescueAgent \<Rightarrow> RescueAgent" where
  "apply_op (ReceiveAlert event) a = receive_alert event a"
| "apply_op Assess a = assess_situation a"
| "apply_op ExecuteResponse a = execute_response a"
| "apply_op CompleteMission a = complete_mission a"
| "apply_op RunFsmCycle a = run_fsm_cycle a"

definition after :: "operation list \<Rightarrow> RescueAgent \<Rightarrow> RescueAgent" where
  "after ops a = fold apply_op ops a"

text \<open>Each state of the list is an allowed target of the state before it.\<close>

fun chain_ok :: "string list \<Rightarrow> bool" where
  "chain_ok (s # t # rest) = (t \<in> allowed_targets s \<and> chain_ok (t # rest))"
| "chain_ok _ = True"

text \<open>
  The history is not empty, it ends in the current state, and its states follow the
  transition table.
\<close>

definition history_ok :: "RescueAgent \<Rightarrow> bool" where
  "history_ok a =
    (state_history a \<noteq> [] \<and>
     fst (last (state_history a)) = current_state a \<and>
     chain_ok (map fst (state_history a)))"

text \<open>
  What the dispatcher relies on: the agent is never left in Completing (or in a string
  that is no state), and it has an active goal while Assessing or Responding.
\<close>

definition dispatchable :: "RescueAgent \<Rightarrow> bool" where
  "dispatchable a =
    (current_state a \<in> {STATE_IDLE, STATE_ALERT, STATE_ASSESSING, STATE_RESPONDING} \<and>
     (current_state a \<in> {STATE_ASSESSING, STATE_RESPONDING} \<longrightarrow> active_goal a \<noteq> None))"

text \<open>An agent in AlertReceived has a goal waiting.\<close>

definition alert_pending :: "RescueAgent \<Rightarrow> bool" where
  "alert_pending a = (current_state a \<noteq> STATE_ALERT \<or> goals a \<noteq> [])"

text \<open>
  The operations the driver \<open>run_simulation\<close> uses, and the life cycle of the active
  goal under them: there is one exactly while the agent is Assessing or Responding.
\<close>

fun is_driver_op :: "operation \<Rightarrow> bool" where
  "is_driver_op (ReceiveAlert event) = True"
| "is_driver_op RunFsmCycle = True"
| "is_driver_op _ = False"

definition lifecycle_ok :: "RescueAgent \<Rightarrow> bool" where
  "lifecycle_ok a =
    (current_state a \<in> {STATE_IDLE, STATE_ALERT, STATE_ASSESSING, STATE_RESPONDING} \<and>
     (active_goal a = None) = (current_state a \<in> {STATE_IDLE, STATE_ALERT}))"

subsection \<open>Concrete inputs\<close>

text \<open>A freshly made agent, with a clock that stands still.\<close>

definition agent0 :: RescueAgent where
  "agent0 = init ''RescueAgent-01'' (sconst ''12:00:00'')"

text \<open>A critical fire, and the agent one dispatcher step after its alert.\<close>

definition event0 :: DisasterEvent where
  "event0 = \<lparr>zone = ''Zone-A'', zone_name = ''Residential District'',
             disaster_type = FIRE, severity = CRITICAL, timestamp = ''12:00:00'',
             temperature = 45.5, water_level = 1.25, seismic = 0.2\<rparr>"

definition goal0 :: RescueGoal where
  "goal0 = \<lparr>goal_type = ''FIRE_SUPPRESSION_AND_RESCUE'', priority = 4,
            target_zone = ''Zone-A'', disaster_event = event0, status = ''ACTIVE'',
            created_at = ''12:00:00''\<rparr>"

definition assessing0 :: RescueAgent where
  "assessing0 = run_fsm_cycle (receive_alert (Some event0) agent0)"


text \<open>
  Four floods of severities Moderate, Critical, Critical, Low (priorities 2, 4, 4, 1)
  reported in this order from zones A to D, so that the zone tells the two goals of
  priority 4 apart.
\<close>

definition flood_at :: "string \<Rightarrow> SeverityLevel \<Rightarrow> DisasterEvent" where
  "flood_at z sev = \<lparr>zone = z, zone_name = ''Coastal Region'',
             disaster_type = FLOOD, severity = sev, timestamp = ''12:00:00'',
             temperature = 25, water_level = 6.5, seismic = 0\<rparr>"

definition queued4 :: RescueAgent where
  "queued4 =
     receive_alert (Some (flood_at ''Zone-D'' LOW))
       (receive_alert (Some (flood_at ''Zone-C'' CRITICAL))
         (receive_alert (Some (flood_at ''Zone-B'' CRITICAL))
           (receive_alert (Some (flood_at ''Zone-A'' MODERATE)) agent0)))"

text \<open>Priority, zone and status of the active goal, if there is one.\<close>

definition selected :: "RescueAgent \<Rightarrow> (int \<times> string \<times> string) option" where
  "selected a = map_option (\<lambda>g. (priority g, target_zone g, status g)) (active_goal a)"


section \<open>Basic facts\<close>

lemma state_distinct [simp]:
  "STATE_IDLE \<noteq> STATE_ALERT" "STATE_IDLE \<noteq> STATE_ASSESSING"
  "STATE_IDLE \<noteq> STATE_RESPONDING" "STATE_IDLE \<noteq> STATE_COMPLETING"
  "STATE_ALERT \<noteq> STATE_IDLE" "STATE_ALERT \<noteq> STATE_ASSESSING"
  "STATE_ALERT \<noteq> STATE_RESPONDING" "STATE_ALERT \<noteq> STATE_COMPLETING"
  "STATE_ASSESSING \<noteq> STATE_IDLE" "STATE_ASSESSING \<noteq> STATE_ALERT"
  "STATE_ASSESSING \<noteq> STATE_RESPONDING" "STATE_ASSESSING \<noteq> STATE_COMPLETING"
  "STATE_RESPONDING \<noteq> STATE_IDLE" "STATE_RESPONDING \<noteq> STATE_ALERT"
  "STATE_RESPONDING \<noteq> STATE_ASSESSING" "STATE_RESPONDING \<noteq> STATE_COMPLETING"
  "STATE_COMPLETING \<noteq> STATE_IDLE" "STATE_COMPLETING \<noteq> STATE_ALERT"
  "STATE_COMPLETING \<noteq> STATE_ASSESSING" "STATE_COMPLETING \<noteq> STATE_RESPONDING"
  by (simp_all add: STATE_IDLE_def STATE_ALERT_def STATE_ASSESSING_def
        STATE_RESPONDING_def STATE_COMPLETING_def)

text \<open>The dictionary of the source holds the table of the specification.\<close>

lemma table_lookup: "set (dict_get VALID_TRANSITIONS s []) = allowed_targets s"
  by (auto simp add: dict_get_def VALID_TRANSITIONS_def allowed_targets_def)

lemma log_fields [simp]:
  "agent_id (log m a) = agent_id a"
  "current_state (log m a) = current_state a"
  "goals (log m a) = goals a"
  "active_goal (log m a) = active_goal a"
  "state_history (log m a) = state_history a"
  "completed_missions (log m a) = completed_missions a"
  "execution_log (log m a) = execution_log a @
     [\<lparr>log_time = shd (clock a), log_agent = agent_id a,
       log_state = current_state a, log_message = m\<rparr>]"
  "clock (log m a) = stl (clock a)"
  by (simp_all add: log_def)

lemma transition_to_invalid:
  "T \<notin> allowed_targets (current_state a) \<Longrightarrow>
   transition_to T reason a =
     (False, log [Text (''INVALID TRANSITION: '' @ current_state a @ '' -> '' @ T)] a)"
  by (simp add: transition_to_def table_lookup)

lemma transition_to_valid:
  "T \<in> allowed_targets (current_state a) \<Longrightarrow>
   transition_to T reason a =
     (True, log [Text (''Transition: '' @ current_state a @ '' -> '' @ T @ '' | '' @ reason)]
        (a\<lparr>current_state := T, clock := stl (clock a),
           state_history := state_history a @ [(T, shd (clock a), reason)]\<rparr>))"
  by (simp add: transition_to_def table_lookup Let_def)

lemma determine_goal_table: "determine_goal d = goal_kind_of d"
  by (cases d) (simp_all add: determine_goal_def goal_map_def dict_get_def)

lemma transition_to_fields [simp]:
  "agent_id (snd (transition_to T r a)) = agent_id a"
  "goals (snd (transition_to T r a)) = goals a"
  "active_goal (snd (transition_to T r a)) = active_goal a"
  "completed_missions (snd (transition_to T r a)) = completed_missions a"
  by (simp_all add: transition_to_def Let_def)

lemma transition_to_state:
  "current_state (snd (transition_to T r a)) =
     (if T \<in> allowed_targets (current_state a) then T else current_state a)"
  by (simp add: transition_to_invalid transition_to_valid)

lemma transition_to_history:
  "state_history (snd (transition_to T r a)) =
     (if T \<in> allowed_targets (current_state a)
      then state_history a @ [(T, shd (clock a), r)] else state_history a)"
  by (simp add: transition_to_invalid transition_to_valid)

lemma fold_log_fields [simp]:
  "agent_id (fold (\<lambda>x. log (f x)) xs a) = agent_id a"
  "current_state (fold (\<lambda>x. log (f x)) xs a) = current_state a"
  "goals (fold (\<lambda>x. log (f x)) xs a) = goals a"
  "active_goal (fold (\<lambda>x. log (f x)) xs a) = active_goal a"
  "state_history (fold (\<lambda>x. log (f x)) xs a) = state_history a"
  "completed_missions (fold (\<lambda>x. log (f x)) xs a) = completed_missions a"
  by (induction xs arbitrary: a; simp)+

lemma sort_reverse_Nil [simp]: "sort_reverse f xs = [] \<longleftrightarrow> xs = []"
  by (simp add: sort_reverse_def flip: length_0_conv)

lemma assess_situation_fields:
  "goals (assess_situation a) =
     (if goals a = [] then [] else tl (sort_reverse priority (goals a)))"
  "active_goal (assess_situation a) =
     (if goals a = [] then active_goal a
      else Some ((hd (sort_reverse priority (goals a)))\<lparr>status := ''ACTIVE''\<rparr>))"
  "completed_missions (assess_situation a) = completed_missions a"
  "current_state (assess_situation a) =
     (if goals a = []
      then (if STATE_IDLE \<in> allowed_targets (current_state a)
            then STATE_IDLE else current_state a)
      else (if STATE_ASSESSING \<in> allowed_targets (current_state a)
            then STATE_ASSESSING else current_state a))"
  "state_history (assess_situation a) =
     (if goals a = []
      then (if STATE_IDLE \<in> allowed_targets (current_state a)
            then state_history a @ [(STATE_IDLE, shd (clock a), ''No pending goals'')]
            else state_history a)
      else (if STATE_ASSESSING \<in> allowed_targets (current_state a)
            then state_history a @
              [(STATE_ASSESSING, shd (stl (clock a)),
                ''Assessing '' @ goal_type (hd (sort_reverse priority (goals a))))]
            else state_history a))"
  by (simp_all add: assess_situation_def Let_def transition_to_state transition_to_history
        sort_reverse_def)

lemma execute_response_fields:
  "goals (execute_response a) = goals a"
  "active_goal (execute_response a) = active_goal a"
  "completed_missions (execute_response a) = completed_missions a"
  "current_state (execute_response a) =
     (if active_goal a \<noteq> None \<and> STATE_RESPONDING \<in> allowed_targets (current_state a)
      then STATE_RESPONDING else current_state a)"
  "state_history (execute_response a) =
     (case active_goal a of
        None \<Rightarrow> state_history a
      | Some g \<Rightarrow>
          if STATE_RESPONDING \<in> allowed_targets (current_state a)
          then state_history a @
            [(STATE_RESPONDING, shd (clock a), ''Executing '' @ goal_type g)]
          else state_history a)"
  by (simp_all add: execute_response_def Let_def transition_to_state transition_to_history
        split: option.splits)

lemma complete_mission_fields:
  "goals (complete_mission a) = goals a"
  "active_goal (complete_mission a) = None"
  "completed_missions (complete_mission a) =
     (if active_goal a = None then completed_missions a else completed_missions a + 1)"
  "current_state (complete_mission a) =
     (if active_goal a = None then current_state a
      else if STATE_COMPLETING \<in> allowed_targets (current_state a)
           \<or> STATE_IDLE \<in> allowed_targets (current_state a)
      then STATE_IDLE else current_state a)"
  by (auto simp add: complete_mission_def Let_def transition_to_state transition_to_history
        allowed_targets_def split: option.splits)

lemma complete_mission_history:
  "state_history (complete_mission a) =
     (if active_goal a = None then state_history a
      else if STATE_COMPLETING \<in> allowed_targets (current_state a)
      then state_history a @
        [(STATE_COMPLETING, shd (stl (clock a)), ''Mission wrap-up''),
         (STATE_IDLE, shd (stl (stl (stl (clock a)))), ''Ready for next assignment'')]
      else if STATE_IDLE \<in> allowed_targets (current_state a)
      then state_history a @
        [(STATE_IDLE, shd (stl (stl (clock a))), ''Ready for next assignment'')]
      else state_history a)"
  by (auto simp add: complete_mission_def Let_def transition_to_state transition_to_history
        transition_to_invalid transition_to_valid allowed_targets_def split: option.splits)

lemma receive_alert_fields:
  "goals (receive_alert ev a) =
     (case ev of None \<Rightarrow> goals a
      | Some e \<Rightarrow> goals a @ [\<lparr>goal_type = goal_kind_of (disaster_type e),
                 priority = severity_value (severity e),
                 target_zone = zone e, disaster_event = e,
                 status = ''PENDING'', created_at = shd (clock a)\<rparr>])"
  "active_goal (receive_alert ev a) = active_goal a"
  "completed_missions (receive_alert ev a) = completed_missions a"
  "current_state (receive_alert ev a) =
     (if ev \<noteq> None \<and> current_state a = STATE_IDLE then STATE_ALERT else current_state a)"
  by (auto simp add: receive_alert_def Let_def determine_goal_table transition_to_state
        allowed_targets_def split: option.splits)

lemma receive_alert_history:
  "state_history (receive_alert ev a) =
     (case ev of None \<Rightarrow> state_history a
      | Some e \<Rightarrow>
          if current_state a = STATE_IDLE
          then state_history a @
            [(STATE_ALERT, shd (stl (stl (clock a))),
              ''Disaster alert: '' @ disaster_value (disaster_type e) @ '' in '' @ zone e)]
          else state_history a)"
  by (auto simp add: receive_alert_def Let_def transition_to_history
        allowed_targets_def split: option.splits)

lemmas op_fields = assess_situation_fields execute_response_fields complete_mission_fields
  complete_mission_history receive_alert_fields receive_alert_history

lemma init_fields [simp]:
  "agent_id (init i c) = i" "current_state (init i c) = STATE_IDLE" "goals (init i c) = []"
  "active_goal (init i c) = None"
  "state_history (init i c) = [(STATE_IDLE, shd c, ''Agent initialized'')]"
  "completed_missions (init i c) = 0" "execution_log (init i c) = []" "clock (init i c) = stl c"
  by (simp_all add: init_def)

lemma fold_log_messages:
  "map log_message (execution_log (fold (\<lambda>x. log (f x)) xs a)) =
     map log_message (execution_log a) @ map f xs"
  by (induction xs arbitrary: a) simp_all

lemma execute_response_log:
  "active_goal a = Some g \<Longrightarrow>
   \<exists>m. map log_message (execution_log (execute_response a)) =
     map log_message (execution_log a) @
       m # map (\<lambda>x. [Text (''  ACTION: '' @ x)])
             (get_response_actions (disaster_type (disaster_event g))
                (severity (disaster_event g)))"
  by (cases "STATE_RESPONDING \<in> allowed_targets (current_state a)")
     (simp_all add: execute_response_def Let_def fold_log_messages
        transition_to_invalid transition_to_valid)


section \<open>The stable descending sort\<close>

lemma sort_reverse_stable:
  "filter (\<lambda>y. f y = k) (sort_reverse f xs) = filter (\<lambda>y. f y = k) xs"
proof -
  have "filter (\<lambda>y. f y = k) (sort_reverse f xs)
        = rev (filter (\<lambda>y. f y = k) (sort_key f (rev xs)))"
    by (simp add: sort_reverse_def rev_filter)
  also have "\<dots> = rev (filter (\<lambda>y. f y = k) (rev xs))"
    by (simp only: sort_key_stable)
  also have "\<dots> = filter (\<lambda>y. f y = k) xs"
    by (simp add: rev_filter)
  finally show ?thesis .
qed

lemma mset_sort_reverse [simp]: "mset (sort_reverse f xs) = mset xs"
  by (simp add: sort_reverse_def)

lemma set_sort_reverse [simp]: "set (sort_reverse f xs) = set xs"
  by (simp add: sort_reverse_def)

lemma sort_reverse_descending: "sorted (rev (map f (sort_reverse f xs)))"
  by (simp add: sort_reverse_def rev_map)

lemma sort_reverse_hd_max:
  assumes "xs \<noteq> []" and "x \<in> set xs"
  shows "f x \<le> f (hd (sort_reverse f xs))"
proof -
  let ?ys = "sort_reverse f xs"
  from assms(1) obtain y rest where ys: "?ys = y # rest"
    by (cases ?ys) simp_all
  have "sorted (rev (map f ?ys))" by (rule sort_reverse_descending)
  with ys have "\<forall>z\<in>set rest. f z \<le> f y"
    by (simp add: sorted_append)
  moreover from assms(2) have "x \<in> set ?ys" by simp
  ultimately show ?thesis using ys by auto
qed

text \<open>The goal that comes first after sorting, found in the queue as it was.\<close>

lemma sort_reverse_split:
  assumes "xs \<noteq> []"
  shows "\<exists>pre post. xs = pre @ hd (sort_reverse f xs) # post \<and>
           (\<forall>x\<in>set pre. f x < f (hd (sort_reverse f xs))) \<and>
           (\<forall>x\<in>set post. f x \<le> f (hd (sort_reverse f xs))) \<and>
           mset (tl (sort_reverse f xs)) = mset (pre @ post) \<and>
           (\<forall>k. filter (\<lambda>y. f y = k) (tl (sort_reverse f xs)) =
                filter (\<lambda>y. f y = k) (pre @ post))"
proof -
  let ?ys = "sort_reverse f xs"
  from assms obtain g rest where ys: "?ys = g # rest"
    by (cases ?ys) simp_all
  have le: "f x \<le> f g" if "x \<in> set xs" for x
    using sort_reverse_hd_max [OF assms that, of f] ys by simp
  have stab: "filter (\<lambda>y. f y = k) (g # rest) = filter (\<lambda>y. f y = k) xs" for k
    using sort_reverse_stable [of f k xs] ys by simp
  from stab [of "f g"] have "filter (\<lambda>y. f y = f g) xs = g # filter (\<lambda>y. f y = f g) rest"
    by simp
  then obtain pre post where split: "xs = pre @ g # post"
    and pre: "\<forall>u\<in>set pre. f u \<noteq> f g"
    and post: "filter (\<lambda>y. f y = f g) rest = filter (\<lambda>y. f y = f g) post"
    by (auto simp add: filter_eq_Cons_iff)
  have pre_less: "\<forall>x\<in>set pre. f x < f g"
  proof
    fix x assume "x \<in> set pre"
    with split pre le [of x] show "f x < f g" by fastforce
  qed
  have post_le: "\<forall>x\<in>set post. f x \<le> f g"
    using split le by simp
  have "mset (g # rest) = mset xs"
    using mset_sort_reverse [of f xs] ys by simp
  with split have ms: "mset rest = mset (pre @ post)" by simp
  have filt: "filter (\<lambda>y. f y = k) rest = filter (\<lambda>y. f y = k) (pre @ post)" for k
  proof (cases "k = f g")
    case True
    have "filter (\<lambda>y. f y = f g) pre = []"
      using pre by (simp add: filter_empty_conv)
    with post True show ?thesis by simp
  next
    case False
    with stab [of k] split show ?thesis by simp
  qed
  from split pre_less post_le ms filt ys show ?thesis
    by (intro exI [of _ pre] exI [of _ post]) simp
qed

lemma assess_selects_first_max:
  assumes "goals a \<noteq> []"
  shows "\<exists>g pre post.
     goals a = pre @ g # post \<and>
     (\<forall>x\<in>set pre. priority x < priority g) \<and>
     (\<forall>x\<in>set post. priority x \<le> priority g) \<and>
     active_goal (assess_situation a) = Some (g\<lparr>status := ''ACTIVE''\<rparr>) \<and>
     mset (goals (assess_situation a)) = mset (pre @ post) \<and>
     (\<forall>k. filter (\<lambda>x. priority x = k) (goals (assess_situation a)) =
          filter (\<lambda>x. priority x = k) (pre @ post))"
proof -
  from sort_reverse_split [OF assms, of priority]
  obtain pre post where
    "goals a = pre @ hd (sort_reverse priority (goals a)) # post"
    "\<forall>x\<in>set pre. priority x < priority (hd (sort_reverse priority (goals a)))"
    "\<forall>x\<in>set post. priority x \<le> priority (hd (sort_reverse priority (goals a)))"
    "mset (tl (sort_reverse priority (goals a))) = mset (pre @ post)"
    "\<forall>k. filter (\<lambda>y. priority y = k) (tl (sort_reverse priority (goals a))) =
         filter (\<lambda>y. priority y = k) (pre @ post)"
    by blast
  with assms show ?thesis
    by (intro exI [of _ "hd (sort_reverse priority (goals a))"] exI [of _ pre] exI [of _ post])
       (simp add: assess_situation_fields)
qed


section \<open>Invariants of the reachable agents\<close>

lemma chain_ok_snoc:
  "xs \<noteq> [] \<Longrightarrow> chain_ok (xs @ [t]) = (chain_ok xs \<and> t \<in> allowed_targets (last xs))"
  by (induction xs rule: chain_ok.induct) auto

lemma history_ok_transition:
  "history_ok a \<Longrightarrow> history_ok (snd (transition_to T r a))"
  by (simp add: history_ok_def transition_to_state transition_to_history chain_ok_snoc last_map)

lemma history_ok_frame:
  "state_history b = state_history a \<Longrightarrow> current_state b = current_state a \<Longrightarrow>
   history_ok b = history_ok a"
  by (simp add: history_ok_def)

lemma history_ok_log [simp]: "history_ok (log m a) = history_ok a"
  by (rule history_ok_frame) simp_all

lemma history_ok_fold_log [simp]: "history_ok (fold (\<lambda>x. log (f x)) xs a) = history_ok a"
  by (rule history_ok_frame) simp_all

lemma history_ok_updates [simp]:
  "history_ok (a\<lparr>goals := gs\<rparr>) = history_ok a"
  "history_ok (a\<lparr>active_goal := g\<rparr>) = history_ok a"
  "history_ok (a\<lparr>completed_missions := n\<rparr>) = history_ok a"
  "history_ok (a\<lparr>clock := c\<rparr>) = history_ok a"
  by (simp_all add: history_ok_def)

lemma history_ok_init: "history_ok (init aid clk)"
  by (simp add: history_ok_def)

lemma history_ok_receive_alert: "history_ok a \<Longrightarrow> history_ok (receive_alert event a)"
  by (cases event) (simp_all add: receive_alert_def Let_def history_ok_transition)

lemma history_ok_assess: "history_ok a \<Longrightarrow> history_ok (assess_situation a)"
  by (simp add: assess_situation_def Let_def history_ok_transition)

lemma history_ok_respond: "history_ok a \<Longrightarrow> history_ok (execute_response a)"
  by (cases "active_goal a") (simp_all add: execute_response_def Let_def history_ok_transition)

lemma history_ok_complete: "history_ok a \<Longrightarrow> history_ok (complete_mission a)"
  by (cases "active_goal a") (simp_all add: complete_mission_def Let_def history_ok_transition)

lemma history_ok_cycle: "history_ok a \<Longrightarrow> history_ok (run_fsm_cycle a)"
  by (simp add: run_fsm_cycle_def history_ok_assess history_ok_respond history_ok_complete)

lemma history_ok_apply_op: "history_ok a \<Longrightarrow> history_ok (apply_op op a)"
  by (cases op) (simp_all add: history_ok_receive_alert history_ok_assess history_ok_respond
        history_ok_complete history_ok_cycle)

lemma history_ok_after: "history_ok a \<Longrightarrow> history_ok (after ops a)"
  unfolding after_def by (induction ops arbitrary: a) (simp_all add: history_ok_apply_op)

lemma history_prefix_transition:
  "prefix (state_history a) (state_history (snd (transition_to T r a)))"
  by (simp add: transition_to_history)

lemma history_prefix_apply_op: "prefix (state_history a) (state_history (apply_op op a))"
proof (cases op)
  case (ReceiveAlert event)
  then show ?thesis
    by (cases event) (simp_all add: receive_alert_def Let_def transition_to_history)
next
  case Assess
  then show ?thesis by (simp add: op_fields)
next
  case ExecuteResponse
  then show ?thesis by (simp add: op_fields split: option.splits)
next
  case CompleteMission
  then show ?thesis by (simp add: op_fields)
next
  case RunFsmCycle
  then show ?thesis by (simp add: run_fsm_cycle_def op_fields split: option.splits)
qed

lemma dispatchable_init: "dispatchable (init aid clk)"
  by (simp add: dispatchable_def)

lemma dispatchable_receive_alert: "dispatchable a \<Longrightarrow> dispatchable (receive_alert event a)"
  by (auto simp add: dispatchable_def op_fields)

lemma dispatchable_assess: "dispatchable a \<Longrightarrow> dispatchable (assess_situation a)"
  by (auto simp add: dispatchable_def op_fields allowed_targets_def)

lemma dispatchable_respond: "dispatchable a \<Longrightarrow> dispatchable (execute_response a)"
  by (auto simp add: dispatchable_def op_fields allowed_targets_def)

lemma dispatchable_complete: "dispatchable a \<Longrightarrow> dispatchable (complete_mission a)"
  by (auto simp add: dispatchable_def op_fields allowed_targets_def)

lemma dispatchable_cycle: "dispatchable a \<Longrightarrow> dispatchable (run_fsm_cycle a)"
  by (simp add: run_fsm_cycle_def dispatchable_assess dispatchable_respond
        dispatchable_complete)

lemma dispatchable_apply_op: "dispatchable a \<Longrightarrow> dispatchable (apply_op op a)"
  by (cases op) (simp_all add: dispatchable_receive_alert dispatchable_assess
        dispatchable_respond dispatchable_complete dispatchable_cycle)

lemma dispatchable_after: "dispatchable a \<Longrightarrow> dispatchable (after ops a)"
  unfolding after_def by (induction ops arbitrary: a) (simp_all add: dispatchable_apply_op)

lemma step_until_idle_done:
  "current_state a = STATE_IDLE \<Longrightarrow> step_until_idle a = Some a"
  by (subst step_until_idle.simps) simp

lemma step_until_idle_more:
  "current_state a \<noteq> STATE_IDLE \<Longrightarrow> step_until_idle a = step_until_idle (run_fsm_cycle a)"
  by (subst step_until_idle.simps) simp

lemma cycle_from_responding:
  "current_state a = STATE_RESPONDING \<Longrightarrow> active_goal a \<noteq> None \<Longrightarrow>
   current_state (run_fsm_cycle a) = STATE_IDLE"
  by (simp add: run_fsm_cycle_def op_fields allowed_targets_def)

lemma cycle_from_assessing:
  "current_state a = STATE_ASSESSING \<Longrightarrow> active_goal a \<noteq> None \<Longrightarrow>
   current_state (run_fsm_cycle a) = STATE_RESPONDING \<and> active_goal (run_fsm_cycle a) \<noteq> None"
  by (simp add: run_fsm_cycle_def op_fields allowed_targets_def)

lemma cycle_from_alert:
  "current_state a = STATE_ALERT \<Longrightarrow>
   (if goals a = [] then current_state (run_fsm_cycle a) = STATE_IDLE
    else current_state (run_fsm_cycle a) = STATE_ASSESSING \<and>
         active_goal (run_fsm_cycle a) \<noteq> None)"
  by (simp add: run_fsm_cycle_def op_fields allowed_targets_def)

lemma idle_after_1:
  "current_state a \<noteq> STATE_IDLE \<Longrightarrow> current_state (run_fsm_cycle a) = STATE_IDLE \<Longrightarrow>
   \<exists>n\<le>3. current_state ((run_fsm_cycle ^^ n) a) = STATE_IDLE \<and>
          step_until_idle a = Some ((run_fsm_cycle ^^ n) a)"
  by (intro exI [of _ 1]) (simp add: step_until_idle_more step_until_idle_done)

lemma idle_after_2:
  "current_state a \<noteq> STATE_IDLE \<Longrightarrow> current_state (run_fsm_cycle a) \<noteq> STATE_IDLE \<Longrightarrow>
   current_state (run_fsm_cycle (run_fsm_cycle a)) = STATE_IDLE \<Longrightarrow>
   \<exists>n\<le>3. current_state ((run_fsm_cycle ^^ n) a) = STATE_IDLE \<and>
          step_until_idle a = Some ((run_fsm_cycle ^^ n) a)"
  by (intro exI [of _ 2])
     (simp add: step_until_idle_more step_until_idle_done numeral_2_eq_2)

lemma idle_after_3:
  "current_state a \<noteq> STATE_IDLE \<Longrightarrow> current_state (run_fsm_cycle a) \<noteq> STATE_IDLE \<Longrightarrow>
   current_state (run_fsm_cycle (run_fsm_cycle a)) \<noteq> STATE_IDLE \<Longrightarrow>
   current_state (run_fsm_cycle (run_fsm_cycle (run_fsm_cycle a))) = STATE_IDLE \<Longrightarrow>
   \<exists>n\<le>3. current_state ((run_fsm_cycle ^^ n) a) = STATE_IDLE \<and>
          step_until_idle a = Some ((run_fsm_cycle ^^ n) a)"
  by (intro exI [of _ 3])
     (simp add: step_until_idle_more step_until_idle_done numeral_3_eq_3)

lemma dispatchable_reaches_idle:
  assumes "dispatchable a"
  shows "\<exists>n\<le>3. current_state ((run_fsm_cycle ^^ n) a) = STATE_IDLE \<and>
          step_until_idle a = Some ((run_fsm_cycle ^^ n) a)"
proof -
  from assms consider
      (idle) "current_state a = STATE_IDLE"
    | (alert) "current_state a = STATE_ALERT"
    | (assessing) "current_state a = STATE_ASSESSING" "active_goal a \<noteq> None"
    | (responding) "current_state a = STATE_RESPONDING" "active_goal a \<noteq> None"
    by (auto simp add: dispatchable_def)
  then show ?thesis
  proof cases
    case idle
    then show ?thesis
      by (intro exI [of _ 0]) (simp add: step_until_idle_done)
  next
    case responding
    then show ?thesis
      by (intro idle_after_1) (simp_all add: cycle_from_responding)
  next
    case assessing
    let ?b = "run_fsm_cycle a"
    from assessing have b: "current_state ?b = STATE_RESPONDING" "active_goal ?b \<noteq> None"
      using cycle_from_assessing [of a] by simp_all
    with assessing show ?thesis
      by (intro idle_after_2) (simp_all add: cycle_from_responding)
  next
    case alert
    show ?thesis
    proof (cases "goals a = []")
      case True
      with alert cycle_from_alert [of a] show ?thesis
        by (intro idle_after_1) simp_all
    next
      case False
      let ?b = "run_fsm_cycle a"
      let ?c = "run_fsm_cycle ?b"
      from False alert cycle_from_alert [of a]
      have b: "current_state ?b = STATE_ASSESSING" "active_goal ?b \<noteq> None" by simp_all
      then have c: "current_state ?c = STATE_RESPONDING" "active_goal ?c \<noteq> None"
        using cycle_from_assessing [of ?b] by simp_all
      with alert b show ?thesis
        by (intro idle_after_3) (simp_all add: cycle_from_responding)
    qed
  qed
qed

lemma alert_pending_apply_op: "alert_pending a \<Longrightarrow> alert_pending (apply_op op a)"
  by (cases op)
     (auto simp add: alert_pending_def run_fsm_cycle_def op_fields allowed_targets_def
        split: if_splits option.splits)

lemma alert_pending_after: "alert_pending a \<Longrightarrow> alert_pending (after ops a)"
  unfolding after_def by (induction ops arbitrary: a) (simp_all add: alert_pending_apply_op)

lemma alert_has_pending_goal:
  "current_state (after ops (init aid clk)) = STATE_ALERT \<Longrightarrow>
   goals (after ops (init aid clk)) \<noteq> []"
  using alert_pending_after [of "init aid clk" ops] by (simp add: alert_pending_def)


lemma lifecycle_ok_driver_op:
  "lifecycle_ok a \<Longrightarrow> is_driver_op op \<Longrightarrow> lifecycle_ok (apply_op op a)"
  by (cases op)
     (auto simp add: lifecycle_ok_def run_fsm_cycle_def op_fields allowed_targets_def
        split: if_splits)

lemma lifecycle_ok_after:
  "lifecycle_ok a \<Longrightarrow> list_all is_driver_op ops \<Longrightarrow> lifecycle_ok (after ops a)"
  unfolding after_def
  by (induction ops arbitrary: a) (simp_all add: lifecycle_ok_driver_op)

text \<open>Under the driver, an agent in AlertReceived has no active goal.\<close>

lemma alert_has_no_active_goal:
  "list_all is_driver_op ops \<Longrightarrow>
   current_state (after ops (init aid clk)) = STATE_ALERT \<Longrightarrow>
   active_goal (after ops (init aid clk)) = None"
  using lifecycle_ok_after [of "init aid clk" ops]
  by (simp add: lifecycle_ok_def)

section \<open>A full cycle of the dispatcher\<close>

lemma run_cycle_from_idle:
  fixes a :: RescueAgent and ev :: DisasterEvent
  assumes "current_state a = STATE_IDLE"
  defines "b \<equiv> receive_alert (Some ev) a"
  defines "a' \<equiv> run_fsm_cycle (run_fsm_cycle (run_fsm_cycle b))"
  shows "simulation_cycle (Some ev) a = Some a'"
    and "current_state a' = STATE_IDLE"
    and "completed_missions a' = completed_missions a + 1"
    and "\<exists>new. state_history a' = state_history a @ new \<and>
           map fst new = [STATE_ALERT, STATE_ASSESSING, STATE_RESPONDING,
                          STATE_COMPLETING, STATE_IDLE]"
    and "goals a = [] \<Longrightarrow> goals a' = []"
proof -
  have b: "current_state b = STATE_ALERT" "goals b \<noteq> []"
    "completed_missions b = completed_missions a"
    using assms(1) by (simp_all add: b_def op_fields)
  have hb: "\<exists>t r. state_history b = state_history a @ [(STATE_ALERT, t, r)]"
    using assms(1) by (simp add: b_def receive_alert_def Let_def transition_to_history
         allowed_targets_def)
  let ?c = "run_fsm_cycle b"
  have c_eq: "?c = assess_situation b"
    using b by (simp add: run_fsm_cycle_def)
  have c: "current_state ?c = STATE_ASSESSING" "active_goal ?c \<noteq> None"
    "completed_missions ?c = completed_missions a"
    using b by (simp_all add: c_eq op_fields allowed_targets_def)
  have hc: "\<exists>t r. state_history ?c = state_history b @ [(STATE_ASSESSING, t, r)]"
    using b by (simp add: c_eq op_fields allowed_targets_def)
  let ?d = "run_fsm_cycle ?c"
  have d_eq: "?d = execute_response ?c"
    using c by (simp add: run_fsm_cycle_def)
  have d: "current_state ?d = STATE_RESPONDING" "active_goal ?d \<noteq> None"
    "completed_missions ?d = completed_missions a"
    using c by (simp_all add: d_eq op_fields allowed_targets_def)
  have hd: "\<exists>t r. state_history ?d = state_history ?c @ [(STATE_RESPONDING, t, r)]"
    using c by (auto simp add: d_eq op_fields allowed_targets_def)
  have e_eq: "a' = complete_mission ?d"
    using d by (simp add: a'_def run_fsm_cycle_def)
  show e: "current_state a' = STATE_IDLE"
    using d by (simp add: e_eq op_fields allowed_targets_def)
  show "completed_missions a' = completed_missions a + 1"
    using d by (simp add: e_eq op_fields)
  have he: "\<exists>t r t' r'. state_history a' =
      state_history ?d @ [(STATE_COMPLETING, t, r), (STATE_IDLE, t', r')]"
    using d by (simp add: e_eq op_fields allowed_targets_def)
  from hb hc hd he
  show "\<exists>new. state_history a' = state_history a @ new \<and>
           map fst new = [STATE_ALERT, STATE_ASSESSING, STATE_RESPONDING,
                          STATE_COMPLETING, STATE_IDLE]"
    by auto
  have "step_until_idle b = Some a'"
    using b c d e
    by (simp add: step_until_idle_more step_until_idle_done a'_def)
  then show "simulation_cycle (Some ev) a = Some a'"
    by (simp add: simulation_cycle_def b_def)
  show "goals a' = []" if "goals a = []"
  proof -
    from that have "\<exists>g. goals b = [g]"
      by (simp add: b_def op_fields)
    then have "goals ?c = []"
      by (auto simp add: c_eq op_fields sort_reverse_def)
    then show ?thesis
      by (simp add: e_eq d_eq op_fields)
  qed
qed

lemma full_cycle:
  assumes "current_state a = STATE_IDLE"
  shows "\<exists>a' new. simulation_cycle (Some ev) a = Some a' \<and>
           current_state a' = STATE_IDLE \<and>
           completed_missions a' = completed_missions a + 1 \<and>
           state_history a' = state_history a @ new \<and>
           map fst new = [STATE_ALERT, STATE_ASSESSING, STATE_RESPONDING,
                          STATE_COMPLETING, STATE_IDLE] \<and>
           (goals a = [] \<longrightarrow> goals a' = [])"
proof -
  let ?a' = "run_fsm_cycle (run_fsm_cycle (run_fsm_cycle (receive_alert (Some ev) a)))"
  from run_cycle_from_idle(4) [OF assms, where ev = ev]
  obtain new where "state_history ?a' = state_history a @ new"
    "map fst new = [STATE_ALERT, STATE_ASSESSING, STATE_RESPONDING,
                    STATE_COMPLETING, STATE_IDLE]"
    by (elim exE conjE)
  with run_cycle_from_idle(1,2,3,5) [of a ev] assms show ?thesis
    by (intro exI [of _ ?a'] exI [of _ new]) simp
qed

lemma run_cycles_count:
  "current_state a = STATE_IDLE \<Longrightarrow> goals a = [] \<Longrightarrow>
   \<exists>a'. run_cycles (map Some evs) a = Some a' \<and>
        completed_missions a' = completed_missions a + int (length evs) \<and>
        goals a' = [] \<and> current_state a' = STATE_IDLE"
proof (induction evs arbitrary: a)
  case Nil
  then show ?case by simp
next
  case (Cons ev evs)
  let ?b = "run_fsm_cycle (run_fsm_cycle (run_fsm_cycle (receive_alert (Some ev) a)))"
  have b: "simulation_cycle (Some ev) a = Some ?b" "current_state ?b = STATE_IDLE"
    "completed_missions ?b = completed_missions a + 1" "goals ?b = []"
    using run_cycle_from_idle(1,2,3,5) [of a ev] Cons.prems by simp_all
  from Cons.IH [OF b(2) b(4)]
  obtain a' where a': "run_cycles (map Some evs) ?b = Some a'"
    "completed_missions a' = completed_missions ?b + int (length evs)"
    "goals a' = []" "current_state a' = STATE_IDLE"
    by (elim exE conjE)
  show ?case
    using a' b by (intro exI [of _ a']) simp
qed


section \<open>The concrete agents\<close>

lemma queued4_goals:
  "map (\<lambda>g. (priority g, target_zone g)) (goals queued4) =
     [(2, ''Zone-A''), (4, ''Zone-B''), (4, ''Zone-C''), (1, ''Zone-D'')]"
  by (simp add: queued4_def flood_at_def agent0_def receive_alert_fields)

lemma queued4_selection:
  "selected (assess_situation queued4) = Some (4, ''Zone-B'', ''ACTIVE'')"
  "selected (assess_situation (assess_situation queued4)) = Some (4, ''Zone-C'', ''ACTIVE'')"
  "selected (assess_situation (assess_situation (assess_situation queued4))) =
     Some (2, ''Zone-A'', ''ACTIVE'')"
  "selected (assess_situation (assess_situation (assess_situation (assess_situation queued4)))) =
     Some (1, ''Zone-D'', ''ACTIVE'')"
  "goals (assess_situation (assess_situation (assess_situation (assess_situation queued4)))) = []"
  by (simp_all add: selected_def queued4_def flood_at_def agent0_def receive_alert_fields
        assess_situation_fields sort_reverse_def)


section \<open>The gate of all state changes\<close>

text \<open>
  C1. In any state \<open>S\<close> and for any target \<open>T\<close>: when \<open>T\<close> is not an allowed target of
  \<open>S\<close> in the transition table, \<open>transition_to\<close> returns failure and leaves the current
  state and the transition history as they are; when \<open>T\<close> is an allowed target, it
  returns success, the current state becomes \<open>T\<close>, and the history grows by the one
  entry \<open>(T, timestamp, reason)\<close>.
\<close>

theorem transition_to_gate:
  "(T \<notin> allowed_targets (current_state a) \<longrightarrow>
      fst (transition_to T reason a) = False \<and>
      current_state (snd (transition_to T reason a)) = current_state a \<and>
      state_history (snd (transition_to T reason a)) = state_history a) \<and>
   (T \<in> allowed_targets (current_state a) \<longrightarrow>
      fst (transition_to T reason a) = True \<and>
      current_state (snd (transition_to T reason a)) = T \<and>
      state_history (snd (transition_to T reason a)) =
        state_history a @ [(T, shd (clock a), reason)])"
  by (simp add: transition_to_invalid transition_to_valid)

theorem transition_to_gate_witness:
  "STATE_RESPONDING \<notin> allowed_targets (current_state agent0) \<and>
   fst (transition_to STATE_RESPONDING ''go'' agent0) = False \<and>
   current_state (snd (transition_to STATE_RESPONDING ''go'' agent0)) = STATE_IDLE \<and>
   state_history (snd (transition_to STATE_RESPONDING ''go'' agent0)) =
     [(STATE_IDLE, ''12:00:00'', ''Agent initialized'')] \<and>
   STATE_ALERT \<in> allowed_targets (current_state agent0) \<and>
   fst (transition_to STATE_ALERT ''go'' agent0) = True \<and>
   current_state (snd (transition_to STATE_ALERT ''go'' agent0)) = STATE_ALERT \<and>
   state_history (snd (transition_to STATE_ALERT ''go'' agent0)) =
     [(STATE_IDLE, ''12:00:00'', ''Agent initialized''), (STATE_ALERT, ''12:00:00'', ''go'')]"
  using transition_to_gate [of STATE_RESPONDING agent0 "''go''"]
        transition_to_gate [of STATE_ALERT agent0 "''go''"]
  by (simp add: agent0_def init_def allowed_targets_def)

section \<open>Calls that do nothing\<close>

text \<open>
  C9. \<open>receive_alert(None)\<close> changes nothing: the agent afterwards is the agent before,
  in its current state, goal queue, active goal, transition history, counter of completed
  missions and every other field.
\<close>

theorem receive_alert_none: "receive_alert None a = a"
  by (simp add: receive_alert_def)

text \<open>
  C8. In any state, \<open>execute_response\<close> and \<open>complete_mission\<close> called while there is
  no active goal return at once: the agent afterwards is the agent before, so there is
  no transition, and queue, counter, history and the goals are untouched.
\<close>

theorem no_active_goal_noop:
  "active_goal a = None \<Longrightarrow> execute_response a = a \<and> complete_mission a = a"
  by (simp add: execute_response_def complete_mission_def)

theorem no_active_goal_noop_witness:
  "active_goal agent0 = None \<and> execute_response agent0 = agent0 \<and>
   complete_mission agent0 = agent0"
  using no_active_goal_noop [of agent0]
  by (simp add: agent0_def init_def)

section \<open>Alert intake\<close>

text \<open>
  C4. For every event that is present, \<open>receive_alert\<close> appends exactly one goal to the
  queue: its kind is looked up from the disaster kind (Flood, Earthquake, Fire and
  Landslide have their own kind, anything else gives GENERAL\_RESCUE), its priority is
  the ordinal of the severity, and it is pending. The agent moves to AlertReceived,
  with one new history entry, exactly when it was Idle; otherwise state and history stay
  as they are.
\<close>

theorem receive_alert_event:
  "goals (receive_alert (Some ev) a) =
     goals a @ [\<lparr>goal_type = goal_kind_of (disaster_type ev),
                 priority = severity_value (severity ev),
                 target_zone = zone ev, disaster_event = ev,
                 status = ''PENDING'', created_at = shd (clock a)\<rparr>] \<and>
   current_state (receive_alert (Some ev) a) =
     (if current_state a = STATE_IDLE then STATE_ALERT else current_state a) \<and>
   state_history (receive_alert (Some ev) a) =
     (if current_state a = STATE_IDLE
      then state_history a @
        [(STATE_ALERT, shd (stl (stl (clock a))),
          ''Disaster alert: '' @ disaster_value (disaster_type ev) @ '' in '' @ zone ev)]
      else state_history a)"
  by (simp add: receive_alert_def Let_def determine_goal_table transition_to_state
        transition_to_history allowed_targets_def)

section \<open>Goal selection\<close>

text \<open>
  C2. For every non-empty queue, assessment activates the first goal of maximum
  priority: every goal before it in the queue has a strictly smaller priority, no goal
  after it a greater one. It is removed from the queue, and the other goals keep their
  order within each priority, so the order of arrival decides among equals at the later
  selections too. With priorities 2, 4, 4, 1 queued in this order, four selections give
  the first goal of priority 4, the second goal of priority 4, priority 2, priority 1.
\<close>

theorem select_next_priority_fifo:
  "(goals a \<noteq> [] \<longrightarrow>
     (\<exists>g pre post.
        goals a = pre @ g # post \<and>
        (\<forall>x\<in>set pre. priority x < priority g) \<and>
        (\<forall>x\<in>set post. priority x \<le> priority g) \<and>
        active_goal (assess_situation a) = Some (g\<lparr>status := ''ACTIVE''\<rparr>) \<and>
        mset (goals (assess_situation a)) = mset (pre @ post) \<and>
        (\<forall>k. filter (\<lambda>x. priority x = k) (goals (assess_situation a)) =
             filter (\<lambda>x. priority x = k) (pre @ post)))) \<and>
   map (\<lambda>g. (priority g, target_zone g)) (goals queued4) =
     [(2, ''Zone-A''), (4, ''Zone-B''), (4, ''Zone-C''), (1, ''Zone-D'')] \<and>
   selected (assess_situation queued4) = Some (4, ''Zone-B'', ''ACTIVE'') \<and>
   selected (assess_situation (assess_situation queued4)) = Some (4, ''Zone-C'', ''ACTIVE'') \<and>
   selected (assess_situation (assess_situation (assess_situation queued4))) =
     Some (2, ''Zone-A'', ''ACTIVE'') \<and>
   selected (assess_situation (assess_situation (assess_situation (assess_situation queued4)))) =
     Some (1, ''Zone-D'', ''ACTIVE'')"
  using assess_selects_first_max [of a] queued4_goals queued4_selection
  by (intro conjI impI) assumption+

theorem select_next_priority_fifo_witness:
  "goals queued4 \<noteq> [] \<and>
   (\<exists>g pre post.
        goals queued4 = pre @ g # post \<and>
        active_goal (assess_situation queued4) = Some (g\<lparr>status := ''ACTIVE''\<rparr>) \<and>
        priority g = 4 \<and> target_zone g = ''Zone-B'' \<and> map priority pre = [2] \<and>
        map priority post = [4, 1])"
proof -
  have ne: "goals queued4 \<noteq> []"
    using queued4_goals by auto
  with select_next_priority_fifo [of queued4]
  obtain g pre post where g: "goals queued4 = pre @ g # post"
    "active_goal (assess_situation queued4) = Some (g\<lparr>status := ''ACTIVE''\<rparr>)"
    by blast
  from g(2) queued4_selection(1) have pg: "priority g = 4" "target_zone g = ''Zone-B''"
    by (auto simp add: selected_def)
  from g(1) queued4_goals
  have "map (\<lambda>g. (priority g, target_zone g)) (pre @ g # post) =
     [(2, ''Zone-A''), (4, ''Zone-B''), (4, ''Zone-C''), (1, ''Zone-D'')]" by simp
  with pg have "map priority pre = [2] \<and> map priority post = [4, 1]"
    by (auto simp add: append_eq_Cons_conv Cons_eq_append_conv map_eq_Cons_conv)
  with ne g pg show ?thesis by (intro conjI exI [of _ g] exI [of _ pre] exI [of _ post]) simp_all
qed

section \<open>Assessment on an empty queue\<close>



section \<open>Response actions\<close>

text \<open>
  C5. For every disaster kind and severity the response actions are the base list of
  the kind (three actions for Flood, Earthquake, Fire and Landslide, the single generic
  action otherwise), then "Requesting additional backup units" and "Alerting medical
  emergency teams" when the severity is High or above, then "Declaring zone-wide
  emergency evacuation" when it is Critical. A critical fire gives six actions in this
  order. \<open>execute_response\<close> on an active goal logs its transition attempt and then one
  ACTION line for each of these actions, in order.
\<close>

theorem response_actions:
  "get_response_actions d sev =
     dict_get base_actions d [''Initiating general rescue protocol''] @
     (if severity_value sev \<ge> 3
      then [''Requesting additional backup units'', ''Alerting medical emergency teams'']
      else []) @
     (if sev = CRITICAL then [''Declaring zone-wide emergency evacuation''] else []) \<and>
   length (dict_get base_actions d [''Initiating general rescue protocol'']) =
     (if d \<in> {FLOOD, EARTHQUAKE, FIRE, LANDSLIDE} then 3 else 1) \<and>
   dict_get base_actions D_NONE [''Initiating general rescue protocol''] =
     [''Initiating general rescue protocol''] \<and>
   get_response_actions FIRE CRITICAL =
     [''Dispatching fire suppression units'', ''Establishing firebreaks'',
      ''Evacuating affected buildings'', ''Requesting additional backup units'',
      ''Alerting medical emergency teams'', ''Declaring zone-wide emergency evacuation''] \<and>
   (active_goal a = Some g \<longrightarrow>
     (\<exists>m. map log_message (execution_log (execute_response a)) =
        map log_message (execution_log a) @
          m # map (\<lambda>x. [Text (''  ACTION: '' @ x)])
                (get_response_actions (disaster_type (disaster_event g))
                   (severity (disaster_event g)))))"
proof -
  have "get_response_actions d sev =
     dict_get base_actions d [''Initiating general rescue protocol''] @
     (if severity_value sev \<ge> 3
      then [''Requesting additional backup units'', ''Alerting medical emergency teams'']
      else []) @
     (if sev = CRITICAL then [''Declaring zone-wide emergency evacuation''] else [])"
    by (cases sev) (simp_all add: get_response_actions_def)
  moreover have "length (dict_get base_actions d [''Initiating general rescue protocol'']) =
     (if d \<in> {FLOOD, EARTHQUAKE, FIRE, LANDSLIDE} then 3 else 1)"
    by (cases d) (simp_all add: base_actions_def dict_get_def)
  moreover have "dict_get base_actions D_NONE [''Initiating general rescue protocol''] =
     [''Initiating general rescue protocol'']"
    by (simp add: base_actions_def dict_get_def)
  moreover have "get_response_actions FIRE CRITICAL =
     [''Dispatching fire suppression units'', ''Establishing firebreaks'',
      ''Evacuating affected buildings'', ''Requesting additional backup units'',
      ''Alerting medical emergency teams'', ''Declaring zone-wide emergency evacuation'']"
    by (simp add: get_response_actions_def base_actions_def dict_get_def)
  ultimately show ?thesis
    using execute_response_log [of a g] by blast
qed

theorem response_actions_witness:
  "active_goal assessing0 = Some goal0 \<and>
   (\<exists>m. map log_message (execution_log (execute_response assessing0)) =
      map log_message (execution_log assessing0) @
        m # map (\<lambda>x. [Text (''  ACTION: '' @ x)])
              [''Dispatching fire suppression units'', ''Establishing firebreaks'',
               ''Evacuating affected buildings'', ''Requesting additional backup units'',
               ''Alerting medical emergency teams'',
               ''Declaring zone-wide emergency evacuation''])"
proof -
  have g: "active_goal assessing0 = Some goal0"
    by (simp add: assessing0_def goal0_def agent0_def event0_def run_fsm_cycle_def
          op_fields sort_reverse_def)
  have "disaster_type (disaster_event goal0) = FIRE" "severity (disaster_event goal0) = CRITICAL"
    by (simp_all add: goal0_def event0_def)
  with g response_actions [of FIRE CRITICAL assessing0 goal0]
  obtain m where "map log_message (execution_log (execute_response assessing0)) =
      map log_message (execution_log assessing0) @
        m # map (\<lambda>x. [Text (''  ACTION: '' @ x)]) (get_response_actions FIRE CRITICAL)"
    by auto
  moreover have "get_response_actions FIRE CRITICAL =
     [''Dispatching fire suppression units'', ''Establishing firebreaks'',
      ''Evacuating affected buildings'', ''Requesting additional backup units'',
      ''Alerting medical emergency teams'', ''Declaring zone-wide emergency evacuation'']"
    by (simp add: get_response_actions_def base_actions_def dict_get_def)
  ultimately show ?thesis
    using g by (intro conjI exI [of _ m]) (simp_all only:)
qed

section \<open>Full cycles\<close>

text \<open>
  C3. An agent that is Idle, receives one alert and is stepped until it is Idle again
  has completed exactly one more mission and has exactly five new history entries, for
  AlertReceived, Assessing, Responding, Completing and Idle in this order. So a fresh
  agent that is taken through \<open>N\<close> such cycles, one event each, has completed \<open>N\<close>
  missions and has an empty queue.
\<close>

theorem full_cycle_counts:
  "(current_state a = STATE_IDLE \<longrightarrow>
     (\<exists>a' new. simulation_cycle (Some ev) a = Some a' \<and>
        current_state a' = STATE_IDLE \<and>
        completed_missions a' = completed_missions a + 1 \<and>
        state_history a' = state_history a @ new \<and>
        map fst new = [STATE_ALERT, STATE_ASSESSING, STATE_RESPONDING,
                       STATE_COMPLETING, STATE_IDLE])) \<and>
   (\<exists>a'. run_cycles (map Some evs) (init aid clk) = Some a' \<and>
      completed_missions a' = int (length evs) \<and>
      goals a' = [] \<and> current_state a' = STATE_IDLE)"
proof (intro conjI impI)
  assume "current_state a = STATE_IDLE"
  from full_cycle [OF this, of ev]
  obtain a' new where "simulation_cycle (Some ev) a = Some a'"
    "current_state a' = STATE_IDLE" "completed_missions a' = completed_missions a + 1"
    "state_history a' = state_history a @ new"
    "map fst new = [STATE_ALERT, STATE_ASSESSING, STATE_RESPONDING,
                    STATE_COMPLETING, STATE_IDLE]"
    by (elim exE conjE)
  then show "\<exists>a' new. simulation_cycle (Some ev) a = Some a' \<and>
        current_state a' = STATE_IDLE \<and>
        completed_missions a' = completed_missions a + 1 \<and>
        state_history a' = state_history a @ new \<and>
        map fst new = [STATE_ALERT, STATE_ASSESSING, STATE_RESPONDING,
                       STATE_COMPLETING, STATE_IDLE]"
    by (intro exI [of _ a'] exI [of _ new]) simp
next
  show "\<exists>a'. run_cycles (map Some evs) (init aid clk) = Some a' \<and>
      completed_missions a' = int (length evs) \<and>
      goals a' = [] \<and> current_state a' = STATE_IDLE"
    using run_cycles_count [of "init aid clk" evs] by simp
qed

theorem full_cycle_counts_witness:
  "current_state agent0 = STATE_IDLE \<and>
   (\<exists>a' new. simulation_cycle (Some event0) agent0 = Some a' \<and>
        current_state a' = STATE_IDLE \<and>
        completed_missions a' = 1 \<and>
        state_history a' = state_history agent0 @ new \<and>
        map fst new = [STATE_ALERT, STATE_ASSESSING, STATE_RESPONDING,
                       STATE_COMPLETING, STATE_IDLE]) \<and>
   (\<exists>a'. run_cycles [Some event0, Some (flood_at ''Zone-D'' LOW)] agent0 = Some a' \<and>
      completed_missions a' = 2 \<and> goals a' = [] \<and> current_state a' = STATE_IDLE)"
  using full_cycle_counts [of agent0 event0 "[event0, flood_at ''Zone-D'' LOW]"
          "''RescueAgent-01''" "sconst ''12:00:00''"]
  by (simp add: agent0_def)

section \<open>The transition history\<close>

text \<open>
  C7. In every agent reached from initialization by any sequence of \<open>receive_alert\<close>,
  \<open>assess_situation\<close>, \<open>execute_response\<close>, \<open>complete_mission\<close> and
  \<open>run_fsm_cycle\<close>, each state of the history after the first is an allowed target of
  the state recorded before it (Idle to AlertReceived; AlertReceived to Assessing or
  Idle; Assessing to Responding or Idle; Responding to Completing; Completing to Idle),
  the last entry carries the current state, and any further operation only appends: the
  history before it is a prefix of the history after it.
\<close>

theorem history_follows_table:
  "history_ok (after ops (init aid clk)) \<and>
   prefix (state_history (after ops (init aid clk)))
     (state_history (apply_op op (after ops (init aid clk))))"
  by (simp add: history_ok_after history_ok_init history_prefix_apply_op)

theorem history_follows_table_witness:
  "history_ok (after [ReceiveAlert (Some event0), RunFsmCycle, RunFsmCycle, RunFsmCycle] agent0) \<and>
   map fst (state_history
     (after [ReceiveAlert (Some event0), RunFsmCycle, RunFsmCycle, RunFsmCycle] agent0)) =
     [STATE_IDLE, STATE_ALERT, STATE_ASSESSING, STATE_RESPONDING, STATE_COMPLETING, STATE_IDLE]"
  using history_follows_table [of "[ReceiveAlert (Some event0), RunFsmCycle, RunFsmCycle, RunFsmCycle]"
     "''RescueAgent-01''" "sconst ''12:00:00''" RunFsmCycle]
  by (simp add: agent0_def after_def event0_def run_fsm_cycle_def op_fields
        receive_alert_history allowed_targets_def sort_reverse_def)

section \<open>Termination of the dispatcher loop\<close>

text \<open>
  C10. From every reachable agent, at most three calls of \<open>run_fsm_cycle\<close> in a row
  lead to Idle, and the loop that steps until Idle returns, with the agent after these
  calls: from AlertReceived one step gives Assessing or Idle, from Assessing (where a
  reachable agent always has an active goal) one step gives Responding, from Responding
  one step gives Idle.
\<close>

theorem dispatcher_returns_to_idle:
  "(current_state (after ops (init aid clk)) = STATE_ALERT \<longrightarrow>
      current_state (run_fsm_cycle (after ops (init aid clk)))
        \<in> {STATE_ASSESSING, STATE_IDLE}) \<and>
   (current_state (after ops (init aid clk)) = STATE_ASSESSING \<longrightarrow>
      active_goal (after ops (init aid clk)) \<noteq> None \<and>
      current_state (run_fsm_cycle (after ops (init aid clk))) = STATE_RESPONDING) \<and>
   (current_state (after ops (init aid clk)) = STATE_RESPONDING \<longrightarrow>
      current_state (run_fsm_cycle (after ops (init aid clk))) = STATE_IDLE) \<and>
   (\<exists>n\<le>3. current_state ((run_fsm_cycle ^^ n) (after ops (init aid clk))) = STATE_IDLE \<and>
      step_until_idle (after ops (init aid clk)) =
        Some ((run_fsm_cycle ^^ n) (after ops (init aid clk))))"
proof -
  let ?a = "after ops (init aid clk)"
  have d: "dispatchable ?a"
    by (simp add: dispatchable_after dispatchable_init)
  have "current_state ?a = STATE_ALERT \<longrightarrow>
      current_state (run_fsm_cycle ?a) \<in> {STATE_ASSESSING, STATE_IDLE}"
    using cycle_from_alert [of ?a] by (auto split: if_splits)
  moreover have "current_state ?a = STATE_ASSESSING \<longrightarrow>
      active_goal ?a \<noteq> None \<and> current_state (run_fsm_cycle ?a) = STATE_RESPONDING"
    using d cycle_from_assessing [of ?a] by (auto simp add: dispatchable_def)
  moreover have "current_state ?a = STATE_RESPONDING \<longrightarrow>
      current_state (run_fsm_cycle ?a) = STATE_IDLE"
    using d cycle_from_responding [of ?a] by (auto simp add: dispatchable_def)
  ultimately show ?thesis
    using dispatchable_reaches_idle [OF d] by blast
qed

theorem dispatcher_returns_to_idle_witness:
  "current_state (after [ReceiveAlert (Some event0)] agent0) = STATE_ALERT \<and>
   current_state (run_fsm_cycle (after [ReceiveAlert (Some event0)] agent0)) = STATE_ASSESSING \<and>
   current_state (after [ReceiveAlert (Some event0), RunFsmCycle] agent0) = STATE_ASSESSING \<and>
   active_goal (after [ReceiveAlert (Some event0), RunFsmCycle] agent0) \<noteq> None \<and>
   current_state (run_fsm_cycle (after [ReceiveAlert (Some event0), RunFsmCycle] agent0)) =
     STATE_RESPONDING \<and>
   current_state (after [ReceiveAlert (Some event0), RunFsmCycle, RunFsmCycle] agent0) =
     STATE_RESPONDING \<and>
   current_state (run_fsm_cycle
     (after [ReceiveAlert (Some event0), RunFsmCycle, RunFsmCycle] agent0)) = STATE_IDLE \<and>
   (\<exists>n\<le>3. step_until_idle (after [ReceiveAlert (Some event0)] agent0) =
       Some ((run_fsm_cycle ^^ n) (after [ReceiveAlert (Some event0)] agent0)))"
proof -
  let ?i = "init ''RescueAgent-01'' (sconst ''12:00:00'')"
  have s: "current_state (after [ReceiveAlert (Some event0)] ?i) = STATE_ALERT"
    "current_state (after [ReceiveAlert (Some event0), RunFsmCycle] ?i) = STATE_ASSESSING"
    "current_state (after [ReceiveAlert (Some event0), RunFsmCycle, RunFsmCycle] ?i) =
       STATE_RESPONDING"
    by (simp_all add: after_def event0_def run_fsm_cycle_def op_fields
        allowed_targets_def sort_reverse_def)
  have t: "current_state (run_fsm_cycle (after [ReceiveAlert (Some event0)] ?i)) =
      STATE_ASSESSING"
    using s(2) by (simp add: after_def)
  from s t
    dispatcher_returns_to_idle [of "[ReceiveAlert (Some event0)]" "''RescueAgent-01''"
      "sconst ''12:00:00''"]
    dispatcher_returns_to_idle [of "[ReceiveAlert (Some event0), RunFsmCycle]"
      "''RescueAgent-01''" "sconst ''12:00:00''"]
    dispatcher_returns_to_idle [of "[ReceiveAlert (Some event0), RunFsmCycle, RunFsmCycle]"
      "''RescueAgent-01''" "sconst ''12:00:00''"]
  show ?thesis
    unfolding agent0_def by blast
qed


end
